theory Spec2Isabelle
  imports Main
begin

section \<open>Python values, columns and errors\<close>

text \<open>
  The formatter of \<^verbatim>\<open>src/legends.py\<close> is dynamically typed. A cell of a column is
  \<^verbatim>\<open>None\<close>, a \<^verbatim>\<open>str\<close>, an \<^verbatim>\<open>int\<close> or a \<^verbatim>\<open>float\<close>. Python
  strings are lists of code points; the only non-ASCII code point of the source is the
  plus-minus sign U+00B1, which fits a \<^typ>\<open>char\<close>. Floats are kept abstract (type
  \<open>'f\<close>): what the interpreter and numpy compute on them is a parameter, see
  \<open>host\<close> below.
\<close>

datatype 'f cell = PNone | PStr string | PInt int | PFloat 'f

text \<open>What a column argument is when it is looked at: \<^verbatim>\<open>None\<close> (the default) or a
  Python list of cells. Other iterables (tuples, strings, generators) are not modelled.\<close>

datatype 'f column = Absent | PList "'f cell list"

text \<open>
  Lists are objects: the caller passes references, the same list may be passed for two
  columns, and lines 135 to 145 assign to the items of the caller's lists. So a list
  argument is an address, \<^verbatim>\<open>None\<close> is no address, and the lists live in a store.
\<close>

type_synonym addr = nat

type_synonym 'f store = "addr \<Rightarrow> 'f cell list"

fun deref :: "'f store \<Rightarrow> addr option \<Rightarrow> 'f column" where
  "deref st None = Absent"
| "deref st (Some a) = PList (st a)"

text \<open>The five keys of the dictionaries \<^verbatim>\<open>Max_Length\<close> and \<^verbatim>\<open>Parts\<close>, in the
  order of the parameters.\<close>

datatype key = Names | Signs | Values | Errors | Units

text \<open>
  Every way a call can raise:
  \<^item> \<open>TypeError_value\<close>: line 40, the estimator's own check;
  \<^item> \<open>TypeError_argument k\<close>: line 127, whose message names the column \<open>k\<close>;
  \<^item> \<open>TypeError_builtin\<close>: a \<^verbatim>\<open>TypeError\<close> raised by the interpreter or by numpy
    (subscripting \<^verbatim>\<open>None\<close>, \<^verbatim>\<open>'[' + 1\<close>, \<^verbatim>\<open>round('a', 3)\<close>,
    \<^verbatim>\<open>None * 1000.0\<close> inside \<^verbatim>\<open>np.round\<close>);
  \<^item> \<open>ValueError\<close>: numpy on a size-0 array (\<^verbatim>\<open>np.vectorize\<close> without
    \<^verbatim>\<open>otypes\<close>, \<^verbatim>\<open>max\<close> of nothing);
  \<^item> \<open>IndexError\<close>: a list read past its end;
  \<^item> \<open>AttributeError\<close>: \<^verbatim>\<open>.replace\<close> on a cell that is not a string.
\<close>

datatype error =
    TypeError_value
  | TypeError_argument key
  | TypeError_builtin
  | ValueError
  | IndexError
  | AttributeError

section \<open>The glyph-width estimator\<close>

text \<open>\<^verbatim>\<open>str.split(sep)\<close> for a one-character separator: one more segment than
  there are separators.\<close>

fun py_split :: "char \<Rightarrow> string \<Rightarrow> string list" where
  "py_split sep [] = [[]]"
| "py_split sep (c # cs) =
     (let r = py_split sep cs in if c = sep then [] # r else (c # hd r) # tl r)"

text \<open>\<^verbatim>\<open>s.replace(a, b)\<close> for one-character \<open>a\<close>, \<open>b\<close>, and \<^verbatim>\<open>s.replace(a, '')\<close>.\<close>

definition replace_char :: "char \<Rightarrow> char \<Rightarrow> string \<Rightarrow> string" where
  "replace_char a b s = map (\<lambda>c. if c = a then b else c) s"

definition remove_char :: "char \<Rightarrow> string \<Rightarrow> string" where
  "remove_char a s = filter (\<lambda>c. c \<noteq> a) s"

text \<open>Line 47: \<^verbatim>\<open>re.sub(r'[\{\} ]', '', s)\<close>.\<close>

definition re_sub_braces :: "string \<Rightarrow> string" where
  "re_sub_braces s = filter (\<lambda>c. c \<noteq> CHR ''{'' \<and> c \<noteq> CHR ''}'' \<and> c \<noteq> CHR '' '') s"

text \<open>The character class \<^verbatim>\<open>[a-zA-Z]\<close> of a \<^verbatim>\<open>str\<close> pattern.\<close>

definition is_letter :: "char \<Rightarrow> bool" where
  "is_letter c \<longleftrightarrow>
     c \<in> set (''abcdefghijklmnopqrstuvwxyz'' @ ''ABCDEFGHIJKLMNOPQRSTUVWXYZ'')"

text \<open>
  Line 49: \<^verbatim>\<open>re.sub(r'\\([a-zA-Z]+)', '_', s)\<close>. The scan goes left to right; at a
  backslash followed by a letter the match takes the longest run of letters and is
  replaced by one underscore; any other character is copied.
\<close>

function re_sub_command :: "string \<Rightarrow> string" where
  "re_sub_command [] = []"
| "re_sub_command (c # cs) =
     (if c = CHR 0x5C \<and> cs \<noteq> [] \<and> is_letter (hd cs)
      then CHR ''_'' # re_sub_command (dropWhile is_letter cs)
      else c # re_sub_command cs)"
  by pat_completeness auto
termination
  by (relation "measure length") (auto simp: le_imp_less_Suc length_dropWhile_le)

text \<open>Lines 47 to 50, the four rewrites of a LaTeX inclusion, in the source's order.\<close>

definition inclusion :: "string \<Rightarrow> string" where
  "inclusion s =
     remove_char CHR '' ''
       (re_sub_command
         (replace_char CHR ''_'' CHR '' '' (replace_char CHR ''^'' CHR '' '' (re_sub_braces s))))"

text \<open>Lines 45 to 50: the loop over \<^verbatim>\<open>range(len(value))\<close> that rewrites the
  odd-indexed segments in place.\<close>

definition rewrite_step :: "nat \<Rightarrow> string list \<Rightarrow> string list" where
  "rewrite_step i value = (if i mod 2 \<noteq> 0 then value[i := inclusion (value ! i)] else value)"

definition rewrite_segments :: "string list \<Rightarrow> string list" where
  "rewrite_segments value = fold rewrite_step [0..<length value] value"

text \<open>Lines 39 to 51.\<close>

fun LaTeX_str_length :: "'f cell \<Rightarrow> error + nat" where
  "LaTeX_str_length PNone = Inr 0"
| "LaTeX_str_length (PStr s) = Inr (length (concat (rewrite_segments (py_split CHR ''$'' s))))"
| "LaTeX_str_length (PInt i) = Inl TypeError_value"
| "LaTeX_str_length (PFloat x) = Inl TypeError_value"

section \<open>The host: Python's numbers and numpy\<close>

text \<open>
  Integers are modelled exactly. What Python and numpy compute on floats is not part of
  the repository and is taken as a parameter:
  \<^item> \<open>float_bool x\<close> is \<^verbatim>\<open>bool(x)\<close>;
  \<^item> \<open>float_round_str x n\<close> is \<^verbatim>\<open>str(round(x, n))\<close>;
  \<^item> \<open>np_round_astype_str xs n\<close> is \<^verbatim>\<open>np.round(xs, n).astype(str)\<close> for a list
    \<open>xs\<close> of numbers that numpy does not keep as a 64-bit integer array rounded to
    \<open>n \<ge> 0\<close> places (a list with a float, an integer outside 64 bits, or \<open>n < 0\<close>).
\<close>

record 'f host =
  float_bool :: "'f \<Rightarrow> bool"
  float_round_str :: "'f \<Rightarrow> int \<Rightarrow> string"
  np_round_astype_str :: "'f cell list \<Rightarrow> int \<Rightarrow> error + string list"

text \<open>\<^verbatim>\<open>str(i)\<close> for an integer: decimal digits, a minus sign when negative.\<close>

fun digits :: "nat \<Rightarrow> string" where
  "digits n =
     (if n < 10 then [''0123456789'' ! n]
      else digits (n div 10) @ [''0123456789'' ! (n mod 10)])"

declare digits.simps [simp del]

definition str_int :: "int \<Rightarrow> string" where
  "str_int i = (if i < 0 then CHR ''-'' # digits (nat (- i)) else digits (nat i))"

text \<open>\<^verbatim>\<open>round(i, n)\<close> for an integer \<open>i\<close>: \<open>i\<close> itself when \<open>n \<ge> 0\<close>, else the
  nearest multiple of \<open>10 ^ -n\<close>, a tie going to the even quotient.\<close>

definition round_int :: "int \<Rightarrow> int \<Rightarrow> int" where
  "round_int i n =
     (if 0 \<le> n then i
      else let p = 10 ^ nat (- n); q = i div p; r = i mod p
           in if p < 2 * r \<or> (2 * r = p \<and> odd q) then (q + 1) * p else q * p)"

text \<open>\<^verbatim>\<open>bool(c)\<close>, the test of \<^verbatim>\<open>if Parts[key][row]:\<close>.\<close>

fun truthy :: "'f host \<Rightarrow> 'f cell \<Rightarrow> bool" where
  "truthy h PNone = False"
| "truthy h (PStr s) = (s \<noteq> [])"
| "truthy h (PInt i) = (i \<noteq> 0)"
| "truthy h (PFloat x) = float_bool h x"

text \<open>\<^verbatim>\<open>str(round(c, n))\<close>; \<^verbatim>\<open>round\<close> of a string or of \<^verbatim>\<open>None\<close> raises.\<close>

fun str_round :: "'f host \<Rightarrow> 'f cell \<Rightarrow> int \<Rightarrow> error + string" where
  "str_round h (PInt i) n = Inr (str_int (round_int i n))"
| "str_round h (PFloat x) n = Inr (float_round_str h x n)"
| "str_round h (PStr s) n = Inl TypeError_builtin"
| "str_round h PNone n = Inl TypeError_builtin"

text \<open>The two \<^verbatim>\<open>isinstance\<close> tests of lines 115 and 119.\<close>

fun is_str_or_None :: "'f cell \<Rightarrow> bool" where
  "is_str_or_None PNone = True"
| "is_str_or_None (PStr s) = True"
| "is_str_or_None (PInt i) = False"
| "is_str_or_None (PFloat x) = False"

fun is_number_or_None :: "'f cell \<Rightarrow> bool" where
  "is_number_or_None PNone = True"
| "is_number_or_None (PStr s) = False"
| "is_number_or_None (PInt i) = True"
| "is_number_or_None (PFloat x) = True"

text \<open>A function that may raise, applied to the elements of a list in order; the first
  error ends it.\<close>

fun mapE :: "('a \<Rightarrow> error + 'b) \<Rightarrow> 'a list \<Rightarrow> error + 'b list" where
  "mapE f [] = Inr []"
| "mapE f (x # xs) =
     (case f x of Inl e \<Rightarrow> Inl e
      | Inr y \<Rightarrow> (case mapE f xs of Inl e \<Rightarrow> Inl e | Inr ys \<Rightarrow> Inr (y # ys)))"

text \<open>
  \<^verbatim>\<open>np.array(xs)\<close> for a list that passed the test of line 115. A list of strings
  only becomes a fixed-width string array, whose elements are read back without their
  trailing NUL characters; with a \<^verbatim>\<open>None\<close> among them the array holds the objects
  themselves.
\<close>

definition rstrip_NUL :: "string \<Rightarrow> string" where
  "rstrip_NUL s = rev (dropWhile (\<lambda>c. c = CHR 0x00) (rev s))"

fun np_element :: "'f cell \<Rightarrow> 'f cell" where
  "np_element (PStr s) = PStr (rstrip_NUL s)"
| "np_element c = c"

definition np_array :: "'f cell list \<Rightarrow> 'f cell list" where
  "np_array xs = (if PNone \<in> set xs then xs else map np_element xs)"

text \<open>
  \<^verbatim>\<open>LaTeX_Str_Length(a).max()\<close>: \<^verbatim>\<open>np.vectorize\<close> refuses a size-0 array
  (\<^verbatim>\<open>ValueError\<close>), else applies the estimator to each element; the widths are not
  negative, so their maximum is the fold of \<open>max\<close> from 0.
\<close>

definition LaTeX_Str_Length_max :: "'f cell list \<Rightarrow> error + int" where
  "LaTeX_Str_Length_max a =
     (if a = [] then Inl ValueError
      else case mapE LaTeX_str_length a of
             Inl e \<Rightarrow> Inl e
           | Inr ws \<Rightarrow> Inr (int (fold max ws 0)))"

text \<open>
  Line 121, \<^verbatim>\<open>np.round(xs, n).astype(str)\<close>, for a list that passed the test of
  line 119. A \<^verbatim>\<open>None\<close> among numbers makes an object array, and rounding it raises
  \<^verbatim>\<open>TypeError\<close> (\<^verbatim>\<open>None * 1000.0\<close>). A list of integers that fit 64 bits is an
  integer array, which \<^verbatim>\<open>np.round\<close> returns as it is when \<open>n \<ge> 0\<close>. Everything
  else is the host's.
\<close>

fun int64_cells :: "'f cell list \<Rightarrow> int list option" where
  "int64_cells [] = Some []"
| "int64_cells (PInt i # cs) =
     (if - (2 ^ 63) \<le> i \<and> i < 2 ^ 63
      then (case int64_cells cs of None \<Rightarrow> None | Some js \<Rightarrow> Some (i # js))
      else None)"
| "int64_cells (c # cs) = None"

definition np_round_str :: "'f host \<Rightarrow> 'f cell list \<Rightarrow> int \<Rightarrow> error + string list" where
  "np_round_str h xs n =
     (if PNone \<in> set xs then Inl TypeError_builtin
      else case int64_cells xs of
             Some js \<Rightarrow> if 0 \<le> n then Inr (map str_int js) else np_round_astype_str h xs n
           | None \<Rightarrow> np_round_astype_str h xs n)"

section \<open>The column aligner\<close>

subsection \<open>Lines 110 to 127: the widths and the row count\<close>

text \<open>The new value of \<^verbatim>\<open>Max_Length[key]\<close>, by the four branches of lines 115 to
  127. \<^verbatim>\<open>None\<close> has no \<^verbatim>\<open>__iter__\<close> and is falsy: the third branch.\<close>

definition column_width :: "'f host \<Rightarrow> int \<Rightarrow> key \<Rightarrow> 'f column \<Rightarrow> error + int" where
  "column_width h ROUNDING_COEF k col =
     (case col of
        Absent \<Rightarrow> Inr 0
      | PList xs \<Rightarrow>
          if list_all is_str_or_None xs then LaTeX_Str_Length_max (np_array xs)
          else if list_all is_number_or_None xs then
            (case np_round_str h xs ROUNDING_COEF of
               Inl e \<Rightarrow> Inl e
             | Inr strs \<Rightarrow> LaTeX_Str_Length_max (map PStr strs :: 'f cell list))
          else if xs = [] then Inr 0
          else Inl (TypeError_argument k))"

text \<open>\<^verbatim>\<open>len\<close> of a list column; a column that is \<^verbatim>\<open>None\<close> leaves
  \<^verbatim>\<open>Row_Count\<close> as it is, which \<open>max\<close> with 0 does too.\<close>

fun len :: "'f column \<Rightarrow> nat" where
  "len Absent = 0"
| "len (PList xs) = length xs"

definition keys :: "key list" where
  "keys = [Names, Signs, Values, Errors, Units]"

text \<open>The loop of line 113 over the keys, with the state \<^verbatim>\<open>(Max_Length, Row_Count)\<close>.\<close>

fun Max_Length_loop ::
  "'f host \<Rightarrow> int \<Rightarrow> (key \<Rightarrow> 'f column) \<Rightarrow> key list \<Rightarrow> (key \<Rightarrow> int) \<Rightarrow> nat
     \<Rightarrow> error + ((key \<Rightarrow> int) \<times> nat)" where
  "Max_Length_loop h rc args [] Max_Length Row_Count = Inr (Max_Length, Row_Count)"
| "Max_Length_loop h rc args (k # ks) Max_Length Row_Count =
     (case column_width h rc k (args k) of
        Inl e \<Rightarrow> Inl e
      | Inr w \<Rightarrow>
          Max_Length_loop h rc args ks (Max_Length(k := w)) (max Row_Count (len (args k))))"

subsection \<open>Lines 129 to 145: shifting\<close>

text \<open>\<^verbatim>\<open>' ' * int(n)\<close>: empty when \<open>n\<close> is not positive.\<close>

definition spaces :: "int \<Rightarrow> string" where
  "spaces n = replicate (nat n) CHR '' ''"

text \<open>
  The new value of \<^verbatim>\<open>Parts[key][row]\<close> for the old value \<open>c\<close>, lines 134 to 145,
  with the operands evaluated in Python's order: for the signs \<^verbatim>\<open>'[' + c\<close> comes
  before the estimator is called, elsewhere the estimator (or \<^verbatim>\<open>round\<close>) comes first.
\<close>

fun shift_cell :: "'f host \<Rightarrow> int \<Rightarrow> key \<Rightarrow> int \<Rightarrow> 'f cell \<Rightarrow> error + string" where
  "shift_cell h rc Names M c =
     (if truthy h c then
        (case LaTeX_str_length c of
           Inl e \<Rightarrow> Inl e
         | Inr w \<Rightarrow> (case c of PStr s \<Rightarrow> Inr (s @ spaces (M - int w)) | _ \<Rightarrow> Inl TypeError_builtin))
      else Inr (spaces M))"
| "shift_cell h rc Signs M c =
     (if truthy h c then
        (case c of
           PStr s \<Rightarrow>
             (case LaTeX_str_length c of
                Inl e \<Rightarrow> Inl e
              | Inr w \<Rightarrow> Inr (''['' @ s @ '']'' @ spaces (M - int w)))
         | _ \<Rightarrow> Inl TypeError_builtin)
      else Inr (spaces (M + 2)))"
| "shift_cell h rc Units M c =
     (if truthy h c then
        (case LaTeX_str_length c of
           Inl e \<Rightarrow> Inl e
         | Inr w \<Rightarrow> (case c of PStr s \<Rightarrow> Inr (spaces (M - int w) @ s) | _ \<Rightarrow> Inl TypeError_builtin))
      else Inr (spaces M))"
| "shift_cell h rc k M c =
     (if truthy h c then
        (case str_round h c rc of
           Inl e \<Rightarrow> Inl e
         | Inr t \<Rightarrow>
             (case LaTeX_str_length (PStr t :: 'f cell) of
                Inl e \<Rightarrow> Inl e
              | Inr w \<Rightarrow> Inr (spaces (M - int w) @ t)))
      else Inr (spaces M))"

text \<open>
  The loop of line 133 over \<^verbatim>\<open>range(Row_Count)\<close> on one list. The rows are visited
  in order, so the loop is a traversal of the first \<open>Row_Count\<close> elements; each is
  overwritten in place by its padded string, and a read past the end of the list
  raises \<^verbatim>\<open>IndexError\<close>. The list is returned as it stands when the loop ends or
  raises.
\<close>

fun shift_rows ::
  "'f host \<Rightarrow> int \<Rightarrow> key \<Rightarrow> int \<Rightarrow> nat \<Rightarrow> 'f cell list \<Rightarrow> error option \<times> 'f cell list" where
  "shift_rows h rc k M 0 xs = (None, xs)"
| "shift_rows h rc k M (Suc n) [] = (Some IndexError, [])"
| "shift_rows h rc k M (Suc n) (c # cs) =
     (case shift_cell h rc k M c of
        Inl e \<Rightarrow> (Some e, c # cs)
      | Inr s \<Rightarrow> (case shift_rows h rc k M n cs of (r, cs') \<Rightarrow> (r, PStr s # cs')))"

text \<open>
  The loop of line 131 over the keys; \<^verbatim>\<open>if Parts[key]:\<close> skips \<^verbatim>\<open>None\<close> and the
  empty list. \<open>refs\<close> is \<^verbatim>\<open>Parts\<close>: it holds the references the caller gave, so the
  loop writes into the store, and a list given for two columns is padded twice.
\<close>

fun shifting_loop ::
  "'f host \<Rightarrow> int \<Rightarrow> (key \<Rightarrow> int) \<Rightarrow> nat \<Rightarrow> key list \<Rightarrow> (key \<Rightarrow> addr option) \<Rightarrow> 'f store
     \<Rightarrow> error option \<times> 'f store" where
  "shifting_loop h rc Max_Length Row_Count [] refs st = (None, st)"
| "shifting_loop h rc Max_Length Row_Count (k # ks) refs st =
     (case refs k of
        None \<Rightarrow> shifting_loop h rc Max_Length Row_Count ks refs st
      | Some a \<Rightarrow>
          if st a = [] then shifting_loop h rc Max_Length Row_Count ks refs st
          else (case shift_rows h rc k (Max_Length k) Row_Count (st a) of
                  (Some e, xs') \<Rightarrow> (Some e, st(a := xs'))
                | (None, xs') \<Rightarrow>
                    shifting_loop h rc Max_Length Row_Count ks refs (st(a := xs'))))"

subsection \<open>Lines 147 to 165: concatenating the result\<close>

text \<open>\<^verbatim>\<open>Parts[key][row]\<close>: \<^verbatim>\<open>None\<close> is not subscriptable.\<close>

fun subscript :: "'f column \<Rightarrow> nat \<Rightarrow> error + 'f cell" where
  "subscript Absent row = Inl TypeError_builtin"
| "subscript (PList xs) row = (if row < length xs then Inr (xs ! row) else Inl IndexError)"

text \<open>What lines 150 to 163 append to \<^verbatim>\<open>Result[row]\<close> for the padded cell \<open>s\<close> of
  column \<open>k\<close>; \<open>blank\<close> is the test \<^verbatim>\<open>s.replace(' ', '') == ''\<close>.\<close>

fun piece :: "key \<Rightarrow> bool \<Rightarrow> string \<Rightarrow> string" where
  "piece Names blank s = (if blank then s @ ''  '' else s @ '': '')"
| "piece Signs blank s = (if blank then s @ '' ='' else s @ '' ='')"
| "piece Values blank s =
     (if blank then '' '' @ s @ [CHR '' '', CHR 0xB1, CHR '' '']
      else '' '' @ s @ [CHR '' '', CHR 0xB1, CHR '' ''])"
| "piece Errors blank s = (if blank then '' '' @ s @ '' '' else '' '' @ s @ '' '')"
| "piece Units blank s = (if blank then '' '' @ s else '' '' @ s)"

definition append_piece :: "(key \<Rightarrow> 'f column) \<Rightarrow> nat \<Rightarrow> key \<Rightarrow> string \<Rightarrow> error + string" where
  "append_piece Parts row k acc =
     (case subscript (Parts k) row of
        Inl e \<Rightarrow> Inl e
      | Inr c \<Rightarrow>
          (case c of
             PStr s \<Rightarrow> Inr (acc @ piece k (remove_char CHR '' '' s = []) s)
           | _ \<Rightarrow> Inl AttributeError))"

text \<open>One pass of the loop of line 149: the five statements in the order of the keys.\<close>

fun assemble :: "(key \<Rightarrow> 'f column) \<Rightarrow> nat \<Rightarrow> key list \<Rightarrow> string \<Rightarrow> error + string" where
  "assemble Parts row [] acc = Inr acc"
| "assemble Parts row (k # ks) acc =
     (case append_piece Parts row k acc of
        Inl e \<Rightarrow> Inl e
      | Inr acc' \<Rightarrow> assemble Parts row ks acc')"

text \<open>\<^verbatim>\<open>sep.join(xs)\<close>.\<close>

fun join :: "string \<Rightarrow> string list \<Rightarrow> string" where
  "join sep [] = []"
| "join sep [x] = x"
| "join sep (x # y # ys) = x @ sep @ join sep (y # ys)"

subsection \<open>The whole call\<close>

text \<open>\<^verbatim>\<open>dict(islice(locals().items(), 5))\<close>: the five arguments by their names.\<close>

fun arguments ::
  "addr option \<Rightarrow> addr option \<Rightarrow> addr option \<Rightarrow> addr option \<Rightarrow> addr option \<Rightarrow> key \<Rightarrow> addr option" where
  "arguments names signs values errors units Names = names"
| "arguments names signs values errors units Signs = signs"
| "arguments names signs values errors units Values = values"
| "arguments names signs values errors units Errors = errors"
| "arguments names signs values errors units Units = units"

text \<open>\<^verbatim>\<open>Parts[key]\<close> (and, before line 117 rebinds it, \<^verbatim>\<open>Max_Length[key]\<close>) as the
  store has it.\<close>

definition Parts_of :: "'f store \<Rightarrow> (key \<Rightarrow> addr option) \<Rightarrow> key \<Rightarrow> 'f column" where
  "Parts_of st refs k = deref st (refs k)"

text \<open>
  \<open>shifting\<close> takes the store and the five arguments, and returns what the call
  returns or raises together with the store as the call leaves it. The width pass only
  rebinds the entries of \<^verbatim>\<open>Max_Length\<close>; the padding pass writes into the lists; the
  concatenation reads them back.
\<close>

definition shifting ::
  "'f host \<Rightarrow> 'f store \<Rightarrow> addr option \<Rightarrow> addr option \<Rightarrow> addr option \<Rightarrow> addr option \<Rightarrow> addr option
     \<Rightarrow> int \<Rightarrow> (error + string) \<times> 'f store" where
  "shifting h st names signs values errors units ROUNDING_COEF =
     (let refs = arguments names signs values errors units
      in case Max_Length_loop h ROUNDING_COEF (Parts_of st refs) keys (\<lambda>k. 0) 0 of
           Inl e \<Rightarrow> (Inl e, st)
         | Inr (Max_Length, Row_Count) \<Rightarrow>
             (case shifting_loop h ROUNDING_COEF Max_Length Row_Count keys refs st of
                (Some e, st') \<Rightarrow> (Inl e, st')
              | (None, st') \<Rightarrow>
                  (case mapE (\<lambda>row. assemble (Parts_of st' refs) row keys []) [0..<Row_Count] of
                     Inl e \<Rightarrow> (Inl e, st')
                   | Inr Result \<Rightarrow> (Inr (join [CHR 0x0A] Result), st'))))"

text \<open>A host for calls without floats: when every number is a 64-bit integer and
  \<^verbatim>\<open>ROUNDING_COEF\<close> is not negative, nothing of the host is consulted.\<close>

definition no_floats :: "unit host" where
  "no_floats =
     \<lparr>float_bool = (\<lambda>x. False), float_round_str = (\<lambda>x n. []),
      np_round_astype_str = (\<lambda>xs n. Inl TypeError_builtin)\<rparr>"

text \<open>
  A host that knows four floats, 0.988, 0.001, 0.0005 and 1.5, in lists of floats and
  at three decimals; it is not meant for anything else. \<^verbatim>\<open>str(round(x, 3))\<close> rounds
  the decimal expansion of the float: the float 0.0005 is a little more than 5/10000
  and becomes \<^verbatim>\<open>0.001\<close>. \<^verbatim>\<open>np.round(a, 3)\<close> is
  \<^verbatim>\<open>np.rint(a * 1000) / 1000\<close>: the product \<^verbatim>\<open>0.0005 * 1000\<close> is 0.5 exactly,
  the nearest even integer is 0, and numpy prints \<^verbatim>\<open>0.0\<close>. The other three floats
  are printed alike by both.
\<close>

datatype sample = Float_0_988 | Float_0_001 | Float_0_0005 | Float_1_5

fun python_round3 :: "sample \<Rightarrow> string" where
  "python_round3 Float_0_988 = ''0.988''"
| "python_round3 Float_0_001 = ''0.001''"
| "python_round3 Float_0_0005 = ''0.001''"
| "python_round3 Float_1_5 = ''1.5''"

fun numpy_round3 :: "sample \<Rightarrow> string" where
  "numpy_round3 Float_0_988 = ''0.988''"
| "numpy_round3 Float_0_001 = ''0.001''"
| "numpy_round3 Float_0_0005 = ''0.0''"
| "numpy_round3 Float_1_5 = ''1.5''"

fun float_cell :: "'f cell \<Rightarrow> 'f option" where
  "float_cell (PFloat x) = Some x"
| "float_cell c = None"

definition sample_floats :: "sample host" where
  "sample_floats =
     \<lparr>float_bool = (\<lambda>x. True),
      float_round_str = (\<lambda>x n. if n = 3 then python_round3 x else []),
      np_round_astype_str =
        (\<lambda>xs n. if n = 3 \<and> list_all (\<lambda>c. float_cell c \<noteq> None) xs
                 then Inr (map (\<lambda>c. case float_cell c of Some x \<Rightarrow> numpy_round3 x | None \<Rightarrow> []) xs)
                 else Inl TypeError_builtin)\<rparr>"

text \<open>The store that holds the given lists at the addresses 0, 1, 2 and so on.\<close>

definition store_of :: "'f cell list list \<Rightarrow> 'f store" where
  "store_of xss a = (if a < length xss then xss ! a else [])"


section \<open>The estimator as the specification words it\<close>



text \<open>What the loop of lines 45 to 50 leaves at index \<open>i\<close> for the segment \<open>x\<close>.\<close>

definition seg_len :: "nat \<Rightarrow> string \<Rightarrow> string" where
  "seg_len i x = (if i mod 2 \<noteq> 0 then inclusion x else x)"

text \<open>The widths of a list of segments whose first has index \<open>j\<close>, summed.\<close>

fun segments_width :: "nat \<Rightarrow> string list \<Rightarrow> nat" where
  "segments_width j [] = 0"
| "segments_width j (x # xs) = length (seg_len j x) + segments_width (Suc j) xs"

text \<open>The number the estimator returns on a string.\<close>

definition str_width :: "string \<Rightarrow> nat" where
  "str_width s = length (concat (rewrite_segments (py_split CHR ''$'' s)))"


section \<open>Properties of the estimator\<close>

lemma py_split_ne [simp]: "py_split d s \<noteq> []"
  by (induction s) (auto simp: Let_def)


lemma length_concat_py_split: "length (concat (py_split d s)) + count_list s d = length s"
proof (induction s)
  case Nil
  then show ?case by simp
next
  case (Cons c cs)
  obtain x xs where r: "py_split d cs = x # xs"
    by (cases "py_split d cs") auto
  with Cons show ?case by (auto simp: Let_def)
qed

lemma py_split_no_sep: "d \<notin> set s \<Longrightarrow> py_split d s = [s]"
  by (induction s) (auto simp: Let_def)


text \<open>The loop, run over the first \<open>n\<close> indices, has rewritten exactly those.\<close>

lemma fold_rewrite:
  "n \<le> length v \<Longrightarrow>
   fold rewrite_step [0..<n] v = map (\<lambda>i. seg_len i (v ! i)) [0..<n] @ drop n v"
proof (induction n)
  case 0
  then show ?case by simp
next
  case (Suc n)
  then have n: "n < length v" by simp
  let ?w = "map (\<lambda>i. seg_len i (v ! i)) [0..<n]"
  have IH: "fold rewrite_step [0..<n] v = ?w @ drop n v"
    using Suc by simp
  have d: "drop n v = v ! n # drop (Suc n) v"
    using n by (simp add: Cons_nth_drop_Suc)
  have len: "length ?w = n" by simp
  have "rewrite_step n (?w @ v ! n # drop (Suc n) v) = ?w @ seg_len n (v ! n) # drop (Suc n) v"
    unfolding rewrite_step_def seg_len_def
    by (simp add: nth_append list_update_append len del: map_eq_conv)
  then show ?case
    by (simp add: IH d)
qed

lemma rewrite_segments_map:
  "rewrite_segments v = map (\<lambda>i. seg_len i (v ! i)) [0..<length v]"
  unfolding rewrite_segments_def using fold_rewrite [of "length v" v] by simp


lemma LaTeX_str_length_sum:
  "LaTeX_str_length (PStr s) =
     Inr (\<Sum>i\<leftarrow>[0..<length (py_split CHR ''$'' s)].
            length (seg_len i (py_split CHR ''$'' s ! i)))"
  by (simp add: rewrite_segments_map length_concat comp_def)


lemma length_re_sub_command: "length (re_sub_command s) \<le> length s"
proof (induction s rule: re_sub_command.induct)
  case 1
  then show ?case by simp
next
  case (2 c cs)
  have "length (dropWhile is_letter cs) \<le> length cs" by (rule length_dropWhile_le)
  with 2 show ?case by auto
qed

lemma length_inclusion: "length (inclusion s) \<le> length s"
proof -
  have "length (inclusion s) \<le> length (re_sub_command
         (replace_char CHR ''_'' CHR '' '' (replace_char CHR ''^'' CHR '' '' (re_sub_braces s))))"
    by (simp add: inclusion_def remove_char_def)
  also have "\<dots> \<le> length (replace_char CHR ''_'' CHR '' '' (replace_char CHR ''^'' CHR '' '' (re_sub_braces s)))"
    by (rule length_re_sub_command)
  also have "\<dots> \<le> length s"
    by (simp add: replace_char_def re_sub_braces_def)
  finally show ?thesis .
qed

lemma length_seg_len: "length (seg_len i x) \<le> length x"
  by (simp add: seg_len_def length_inclusion)

lemma estimate_le_concat:
  "(\<Sum>i\<leftarrow>[0..<length v]. length (seg_len i (v ! i))) \<le> length (concat v)"
proof -
  have "(\<Sum>i\<leftarrow>[0..<length v]. length (seg_len i (v ! i))) \<le> (\<Sum>i\<leftarrow>[0..<length v]. length (v ! i))"
    by (rule sum_list_mono) (simp add: length_seg_len)
  also have "\<dots> = sum_list (map length (map (\<lambda>i. v ! i) [0..<length v]))"
    by (simp add: comp_def)
  also have "\<dots> = length (concat v)"
    by (simp only: map_nth length_concat)
  finally show ?thesis .
qed






text \<open>
  Claim C7. For a string with an even number of \<^verbatim>\<open>$\<close> characters the estimate is
  an integer between 0 and the number of characters of the string; for a string without
  \<^verbatim>\<open>$\<close> it is the number of characters.
\<close>

theorem estimate_bounds:
  "(even (count_list s CHR ''$'') \<longrightarrow>
      (\<exists>n. LaTeX_str_length (PStr s :: 'f cell) = Inr n \<and> 0 \<le> int n \<and> n \<le> length s)) \<and>
   (CHR ''$'' \<notin> set s \<longrightarrow> LaTeX_str_length (PStr s :: 'f cell) = Inr (length s))"
proof -
  have "(\<Sum>i\<leftarrow>[0..<length (py_split CHR ''$'' s)].
            length (seg_len i (py_split CHR ''$'' s ! i))) \<le> length s"
    using estimate_le_concat [of "py_split CHR ''$'' s"] length_concat_py_split [of "CHR ''$''" s]
    by linarith
  moreover have "CHR ''$'' \<notin> set s \<Longrightarrow> LaTeX_str_length (PStr s :: 'f cell) = Inr (length s)"
    by (simp add: LaTeX_str_length_sum py_split_no_sep seg_len_def del: LaTeX_str_length.simps)
  ultimately show ?thesis
    by (simp add: LaTeX_str_length_sum del: LaTeX_str_length.simps)
qed

theorem estimate_bounds_witness:
  "even (count_list ''a$b_c$'' CHR ''$'') \<and>
   LaTeX_str_length (PStr ''a$b_c$'' :: unit cell) = Inr 3 \<and> (3::nat) \<le> length ''a$b_c$'' \<and>
   CHR ''$'' \<notin> set ''Alt'' \<and> LaTeX_str_length (PStr ''Alt'' :: unit cell) = Inr (length ''Alt'')"
  using estimate_bounds [of "''a$b_c$''", where 'f = unit] estimate_bounds [of "''Alt''", where 'f = unit]
  by (simp add: rewrite_segments_def rewrite_step_def inclusion_def remove_char_def
      replace_char_def re_sub_braces_def is_letter_def)

text \<open>
  Claim C8. The estimator returns 0 on \<^verbatim>\<open>None\<close>. It raises exactly when its argument
  is neither a string nor \<^verbatim>\<open>None\<close>, the error is then the \<^verbatim>\<open>TypeError\<close> of line
  40, and a call that raises yields no number.
\<close>

theorem estimator_kinds:
  "LaTeX_str_length (PNone :: 'f cell) = Inr 0 \<and>
   ((LaTeX_str_length v = Inl TypeError_value) = (v \<noteq> PNone \<and> (\<forall>s. v \<noteq> PStr s))) \<and>
   ((\<exists>e. LaTeX_str_length v = Inl e) = (LaTeX_str_length v = Inl TypeError_value)) \<and>
   ((\<exists>n. LaTeX_str_length v = Inr n) = (v = PNone \<or> (\<exists>s. v = PStr s)))"
  by (cases v) auto

section \<open>The loops of the aligner\<close>

lemma set_keys: "set keys = UNIV"
proof -
  have "k \<in> set keys" for k by (cases k) (simp_all add: keys_def)
  then show ?thesis by auto
qed




lemma Max_Length_loop_Inl:
  "\<exists>k\<in>set ks. \<exists>e. column_width h rc k (args k) = Inl e \<Longrightarrow>
   \<exists>e. Max_Length_loop h rc args ks M n = Inl e"
proof (induction ks arbitrary: M n)
  case Nil
  then show ?case by simp
next
  case (Cons a ks)
  show ?case
  proof (cases "column_width h rc a (args a)")
    case (Inl e)
    then show ?thesis by simp
  next
    case (Inr w)
    with Cons.prems have "\<exists>k\<in>set ks. \<exists>e. column_width h rc k (args k) = Inl e" by auto
    from Cons.IH [OF this] Inr show ?thesis by simp
  qed
qed

lemma Max_Length_loop_first:
  "\<forall>k'\<in>set ks1. \<exists>w. column_width h rc k' (args k') = Inr w \<Longrightarrow>
   column_width h rc k (args k) = Inl e \<Longrightarrow>
   Max_Length_loop h rc args (ks1 @ k # ks2) M n = Inl e"
  by (induction ks1 arbitrary: M n) (auto split: sum.splits)








section \<open>Widths of padded cells\<close>

lemma LaTeX_str_length_PStr: "LaTeX_str_length (PStr s) = Inr (str_width s)"
  by (simp add: str_width_def)

lemma segments_width_sum:
  "(\<Sum>i\<leftarrow>[0..<length v]. length (seg_len (j + i) (v ! i))) = segments_width j v"
proof (induction v arbitrary: j)
  case Nil
  then show ?case by simp
next
  case (Cons x v)
  have "[0..<length (x # v)] = 0 # map Suc [0..<length v]"
    by (simp add: upt_conv_Cons map_Suc_upt del: upt_Suc)
  then show ?case
    using Cons [of "Suc j"] by (simp add: comp_def del: upt_Suc)
qed

lemma str_width_segments: "str_width s = segments_width 0 (py_split CHR ''$'' s)"
  using LaTeX_str_length_sum [of s, where 'a = unit] segments_width_sum [of 0 "py_split CHR ''$'' s"]
  by (simp add: LaTeX_str_length_PStr del: LaTeX_str_length.simps)





lemma str_width_plain: "CHR ''$'' \<notin> set a \<Longrightarrow> str_width a = length a"
  by (simp add: str_width_segments py_split_no_sep seg_len_def)

lemma count_list_0: "x \<notin> set a \<Longrightarrow> count_list a x = 0"
  by (induction a) auto


lemma spaces_plain [simp]: "CHR ''$'' \<notin> set (spaces n)"
  by (simp add: spaces_def)

lemma length_spaces [simp]: "length (spaces n) = nat n"
  by (simp add: spaces_def)

lemma count_spaces [simp]: "count_list (spaces n) CHR ''$'' = 0"
  by (simp add: count_list_0)

lemma str_width_spaces [simp]: "str_width (spaces n) = nat n"
  by (simp add: str_width_plain)







lemma number_not_str: "PStr t \<in> set xs \<Longrightarrow> \<not> list_all is_number_or_None xs"
  by (auto simp: list_all_iff intro!: bexI [of _ "PStr t"])










section \<open>The claims about the aligner\<close>





text \<open>
  The same list passed for the symbols and for the units (the list at address 1) is
  padded twice: as a symbol \<^verbatim>\<open>''\<close> becomes three spaces, which the pass over the units
  then finds truthy and leaves as they are, though the width of the units is 1.
\<close>

lemma shared_list_padded_twice:
  "fst (shifting no_floats
          (store_of [[PStr ''a'', PStr ''b''], [PStr ''A'', PStr ''''], [PInt 1, PInt 5], [PInt 1, PInt 2]])
          (Some 0) (Some 1) (Some 2) (Some 3) (Some 1) 3)
     = Inr (''a: [A] = 1 '' @ [CHR 0xB1] @ ''  1  [A]'' @ [CHR 0x0A] @
            ''b:     = 5 '' @ [CHR 0xB1] @ ''  2     '') \<and>
   snd (shifting no_floats
          (store_of [[PStr ''a'', PStr ''b''], [PStr ''A'', PStr ''''], [PInt 1, PInt 5], [PInt 1, PInt 2]])
          (Some 0) (Some 1) (Some 2) (Some 3) (Some 1) 3) 1
     = [PStr ''[A]'', PStr ''   ''] \<and>
   column_width no_floats 3 Units (PList [PStr ''A'', PStr '''']) = Inr 1"
  by code_simp

text \<open>
  Floats that numpy and Python print differently: the width of the values is measured
  on \<^verbatim>\<open>0.0\<close> and \<^verbatim>\<open>1.5\<close> (line 121) and is 3, and line 141 prints
  \<^verbatim>\<open>0.001\<close> for the first value, which is 5 wide.
\<close>

lemma float_widths_mismatch:
  "fst (shifting sample_floats
          (store_of [[PStr ''a'', PStr ''b''], [PStr ''x'', PStr ''y''],
                     [PFloat Float_0_0005, PFloat Float_1_5], [PInt 1, PInt 2],
                     [PStr ''m'', PStr ''m'']])
          (Some 0) (Some 1) (Some 2) (Some 3) (Some 4) 3)
     = Inr (''a: [x] = 0.001 '' @ [CHR 0xB1] @ ''  1  m'' @ [CHR 0x0A] @
            ''b: [y] = 1.5 '' @ [CHR 0xB1] @ ''  2  m'') \<and>
   snd (shifting sample_floats
          (store_of [[PStr ''a'', PStr ''b''], [PStr ''x'', PStr ''y''],
                     [PFloat Float_0_0005, PFloat Float_1_5], [PInt 1, PInt 2],
                     [PStr ''m'', PStr ''m'']])
          (Some 0) (Some 1) (Some 2) (Some 3) (Some 4) 3) 2
     = [PStr ''0.001'', PStr ''1.5''] \<and>
   column_width sample_floats 3 Values (PList [PFloat Float_0_0005, PFloat Float_1_5]) = Inr 3"
  by code_simp

lemma shifting_Inl_widths:
  "Max_Length_loop h rc (Parts_of st (arguments names signs values errors units)) keys (\<lambda>k. 0) 0 = Inl e \<Longrightarrow>
   shifting h st names signs values errors units rc = (Inl e, st)"
  by (simp add: shifting_def)

text \<open>
  Claim C5 does not hold on the code. \<^verbatim>\<open>Parts\<close> holds the caller's own lists, and
  lines 135 to 145 assign to their items: after a call that returns, the list of names
  holds a padded name and the list of values holds strings. The same call made again
  with the same lists then finds strings where the numbers were: the widths are computed
  (every column is now a column of strings), and line 141 raises \<^verbatim>\<open>TypeError\<close> on
  \<^verbatim>\<open>round\<close> of a string.
\<close>

theorem caller_lists_overwritten:
  "fst (shifting no_floats
          (store_of [[PStr ''Altitude'', PStr ''Height''], [PStr ''Alt'', PStr ''H''],
                     [PInt 52, PInt 3], [PInt 12, PInt 1], [PStr ''km'', PStr ''m'']])
          (Some 0) (Some 1) (Some 2) (Some 3) (Some 4) 3)
     = Inr (''Altitude: [Alt] = 52 '' @ [CHR 0xB1] @ ''  12  km'' @ [CHR 0x0A] @
            ''Height  : [H]   =  3 '' @ [CHR 0xB1] @ ''   1   m'') \<and>
   snd (shifting no_floats
          (store_of [[PStr ''Altitude'', PStr ''Height''], [PStr ''Alt'', PStr ''H''],
                     [PInt 52, PInt 3], [PInt 12, PInt 1], [PStr ''km'', PStr ''m'']])
          (Some 0) (Some 1) (Some 2) (Some 3) (Some 4) 3) 0
     = [PStr ''Altitude'', PStr ''Height  ''] \<and>
   snd (shifting no_floats
          (store_of [[PStr ''Altitude'', PStr ''Height''], [PStr ''Alt'', PStr ''H''],
                     [PInt 52, PInt 3], [PInt 12, PInt 1], [PStr ''km'', PStr ''m'']])
          (Some 0) (Some 1) (Some 2) (Some 3) (Some 4) 3) 2
     = [PStr ''52'', PStr '' 3''] \<and>
   fst (shifting no_floats
          (snd (shifting no_floats
                  (store_of [[PStr ''Altitude'', PStr ''Height''], [PStr ''Alt'', PStr ''H''],
                             [PInt 52, PInt 3], [PInt 12, PInt 1], [PStr ''km'', PStr ''m'']])
                  (Some 0) (Some 1) (Some 2) (Some 3) (Some 4) 3))
          (Some 0) (Some 1) (Some 2) (Some 3) (Some 4) 3)
     = Inl TypeError_builtin"
  by code_simp

lemma column_width_mixed:
  assumes "PStr s \<in> set xs" and "PInt i \<in> set xs \<or> PFloat x \<in> set xs"
  shows "column_width h rc k (PList xs) = Inl (TypeError_argument k)"
proof -
  from assms(2) have "\<not> list_all is_str_or_None xs"
    by (auto simp: list_all_iff intro: bexI [of _ "PInt i"] bexI [of _ "PFloat x"])
  moreover have "\<not> list_all is_number_or_None xs"
    using assms(1) by (rule number_not_str)
  moreover have "xs \<noteq> []" using assms(1) by auto
  ultimately show ?thesis by (simp add: column_width_def)
qed

lemma keys_split:
  "keys = takeWhile (\<lambda>k'. k' \<noteq> k) keys @ k # tl (dropWhile (\<lambda>k'. k' \<noteq> k) keys)"
proof -
  have "k \<in> set keys" by (simp add: set_keys)
  then have ne: "dropWhile (\<lambda>k'. k' \<noteq> k) keys \<noteq> []" by simp
  from hd_dropWhile [OF ne] have "hd (dropWhile (\<lambda>k'. k' \<noteq> k) keys) = k" by simp
  with ne have "dropWhile (\<lambda>k'. k' \<noteq> k) keys = k # tl (dropWhile (\<lambda>k'. k' \<noteq> k) keys)"
    by (cases "dropWhile (\<lambda>k'. k' \<noteq> k) keys") auto
  with takeWhile_dropWhile_id [of "\<lambda>k'. k' \<noteq> k" keys] show ?thesis by simp
qed

text \<open>
  A column \<open>k\<close> that holds a string and a number: the call raises, returns nothing and
  leaves the lists as they were; and when the width of every column before \<open>k\<close> (in the
  order names, signs, values, errors, units) is computed without error, what is raised
  is the \<^verbatim>\<open>TypeError\<close> of line 127 whose message names \<open>k\<close>.
\<close>

lemma mixed_column_raises:
  assumes col: "Parts_of st (arguments names signs values errors units) k = PList xs"
    and str: "PStr s \<in> set xs"
    and num: "PInt i \<in> set xs \<or> PFloat x \<in> set xs"
  shows "(\<exists>e. shifting h st names signs values errors units rc = (Inl e, st)) \<and>
         ((\<forall>k'\<in>set (takeWhile (\<lambda>k'. k' \<noteq> k) keys).
              \<exists>w. column_width h rc k' (Parts_of st (arguments names signs values errors units) k') = Inr w) \<longrightarrow>
            shifting h st names signs values errors units rc = (Inl (TypeError_argument k), st))"
proof -
  let ?args = "Parts_of st (arguments names signs values errors units)"
  have cw: "column_width h rc k (?args k) = Inl (TypeError_argument k)"
    unfolding col using str num by (rule column_width_mixed)
  have "\<exists>k\<in>set keys. \<exists>e. column_width h rc k (?args k) = Inl e"
    using cw by (auto simp: set_keys)
  from Max_Length_loop_Inl [OF this] obtain e where
    "Max_Length_loop h rc ?args keys (\<lambda>k. 0) 0 = Inl e" by blast
  then have 1: "\<exists>e. shifting h st names signs values errors units rc = (Inl e, st)"
    using shifting_Inl_widths by blast
  have 2: "shifting h st names signs values errors units rc = (Inl (TypeError_argument k), st)"
    if "\<forall>k'\<in>set (takeWhile (\<lambda>k'. k' \<noteq> k) keys). \<exists>w. column_width h rc k' (?args k') = Inr w"
  proof -
    from Max_Length_loop_first [OF that cw] have
      "Max_Length_loop h rc ?args
         (takeWhile (\<lambda>k'. k' \<noteq> k) keys @ k # tl (dropWhile (\<lambda>k'. k' \<noteq> k) keys)) (\<lambda>k. 0) 0
       = Inl (TypeError_argument k)" .
    then have "Max_Length_loop h rc ?args keys (\<lambda>k. 0) 0 = Inl (TypeError_argument k)"
      using keys_split [of k] by simp
    then show ?thesis by (rule shifting_Inl_widths)
  qed
  from 1 2 show ?thesis by blast
qed

text \<open>
  Claim C9 does not hold on the code. The columns are checked one after the other, and
  line 127 is reached for a mixed column only when the width of every earlier column
  was computed; but an earlier column that is an empty list raises \<^verbatim>\<open>ValueError\<close>
  at line 117, and one that holds \<^verbatim>\<open>None\<close> among numbers raises the
  \<^verbatim>\<open>TypeError\<close> of \<^verbatim>\<open>np.round\<close> at line 121, whose message names no column. So
  with the symbols \<^verbatim>\<open>['A', 1]\<close> and an empty list of names the call raises
  \<^verbatim>\<open>ValueError\<close>, and with the units \<^verbatim>\<open>['m', 1]\<close> and the values
  \<^verbatim>\<open>[1, None]\<close> it raises the \<^verbatim>\<open>TypeError\<close> of \<^verbatim>\<open>np.round\<close>; with names
  that are strings, the first call raises the \<^verbatim>\<open>TypeError\<close> that names the
  symbols.
\<close>

theorem mixed_column_other_error:
  "fst (shifting no_floats
          (store_of [[], [PStr ''A'', PInt 1], [PInt 1, PInt 2], [PInt 1, PInt 2], [PStr ''m'', PStr ''m'']])
          (Some 0) (Some 1) (Some 2) (Some 3) (Some 4) 3)
     = Inl ValueError \<and>
   fst (shifting no_floats
          (store_of [[PStr ''a'', PStr ''b''], [PStr ''x'', PStr ''y''], [PInt 1, PNone], [PInt 1, PInt 2],
                     [PStr ''m'', PInt 1]])
          (Some 0) (Some 1) (Some 2) (Some 3) (Some 4) 3)
     = Inl TypeError_builtin \<and>
   fst (shifting no_floats
          (store_of [[PStr ''a'', PStr ''b''], [PStr ''A'', PInt 1], [PInt 1, PInt 2], [PInt 1, PInt 2],
                     [PStr ''m'', PStr ''m'']])
          (Some 0) (Some 1) (Some 2) (Some 3) (Some 4) 3)
     = Inl (TypeError_argument Signs)"
  by code_simp




text \<open>
  Claim C3 does not hold on the code. The width of a column that is \<^verbatim>\<open>None\<close> is 0,
  but with \<^verbatim>\<open>None\<close> for the names and one row in the other four columns, line 150
  subscripts \<^verbatim>\<open>None\<close> and the call raises \<^verbatim>\<open>TypeError\<close>; with an empty list for
  the names, line 117 raises \<^verbatim>\<open>ValueError\<close>. This holds whatever the host computes.
\<close>

theorem absent_column_raises:
  "column_width h 3 Names Absent = Inr 0 \<and>
   fst (shifting h (store_of [[PStr ''A''], [PInt 1], [PInt 2], [PStr ''cm'']])
          None (Some 0) (Some 1) (Some 2) (Some 3) 3)
     = Inl TypeError_builtin \<and>
   fst (shifting h (store_of [[], [PStr ''A''], [PInt 1], [PInt 2], [PStr ''cm'']])
          (Some 0) (Some 1) (Some 2) (Some 3) (Some 4) 3)
     = Inl ValueError"
  by (simp add: shifting_def Parts_of_def store_of_def keys_def column_width_def
      LaTeX_Str_Length_max_def np_array_def
      np_round_str_def rewrite_segments_def rewrite_step_def append_piece_def spaces_def
      str_int_def round_int_def digits.simps Let_def)

text \<open>
  Claim C4 does not hold on the code. On the arguments of the blank-row scenario, with
  any two floats for 0.988 and 0.001 and whatever the host computes, the values pass the
  test of line 119 and \<^verbatim>\<open>np.round\<close> raises \<^verbatim>\<open>TypeError\<close> on the \<^verbatim>\<open>None\<close>
  among them: the call returns no line, and the lists are as they were.
\<close>

theorem blank_row_scenario_raises:
  "shifting h
     (store_of [[PStr ''Alt'', PNone], [PStr ''A'', PNone], [PFloat v, PNone], [PFloat e, PNone],
                [PStr ''cm'', PNone]])
     (Some 0) (Some 1) (Some 2) (Some 3) (Some 4) 3
     = (Inl TypeError_builtin,
        store_of [[PStr ''Alt'', PNone], [PStr ''A'', PNone], [PFloat v, PNone], [PFloat e, PNone],
                  [PStr ''cm'', PNone]])"
  by (simp add: shifting_def Parts_of_def store_of_def keys_def column_width_def
      LaTeX_Str_Length_max_def np_array_def
      np_round_str_def rewrite_segments_def rewrite_step_def Let_def)

text \<open>
  Claim C6 does not hold on the code. With the values 0 and 5 the call returns; the
  width of the column is 1, the width of \<^verbatim>\<open>str(round(0, 3))\<close>, but the cell of the
  value 0 is not \<^verbatim>\<open>None\<close> and is rendered as one space, not as \<^verbatim>\<open>0\<close>.
\<close>

theorem zero_value_rendered_blank:
  "fst (shifting no_floats
          (store_of [[PStr ''a'', PStr ''b''], [PStr ''x'', PStr ''y''], [PInt 0, PInt 5],
                     [PInt 1, PInt 2], [PStr ''m'', PStr ''m'']])
          (Some 0) (Some 1) (Some 2) (Some 3) (Some 4) 3)
     = Inr (''a: [x] =   '' @ [CHR 0xB1] @ ''  1  m'' @ [CHR 0x0A] @
            ''b: [y] = 5 '' @ [CHR 0xB1] @ ''  2  m'') \<and>
   snd (shifting no_floats
          (store_of [[PStr ''a'', PStr ''b''], [PStr ''x'', PStr ''y''], [PInt 0, PInt 5],
                     [PInt 1, PInt 2], [PStr ''m'', PStr ''m'']])
          (Some 0) (Some 1) (Some 2) (Some 3) (Some 4) 3) 2
     = [PStr '' '', PStr ''5''] \<and>
   column_width no_floats 3 Values (PList [PInt 0, PInt 5]) = Inr 1 \<and>
   str_round no_floats (PInt 0) 3 = Inr ''0''"
  by code_simp

end
